theory Spec2Isabelle
  imports Complex_Main "HOL-Library.Char_ord" "HOL-Library.List_Lexorder"
    "HOL-Library.Product_Lexorder"
begin

text \<open>
  A model of the data pipeline of the material-placement dashboard: the loader with its
  fallback from the remote to the local files, the derivation of cost, efficiency and
  sales amount, the aggregation per distributor and month, the value segments, and the
  filters of the sidebar. A data frame is a list of rows, a row is a record, and each
  pandas operation that the program calls is a function on such lists, written after
  what pandas does with blank cells, duplicate keys and the order of the rows. The
  charts and the layout of the pages are not modelled.
\<close>

section \<open>Numeric cells\<close>

text \<open>
  A numeric column of a data frame holds floats, and a missing cell is the float NaN.
  The model keeps the four kinds of float apart: a finite number (an exact rational:
  rounding and overflow of binary64 are outside the model), the two infinities and NaN.
  The arithmetic on the special values is the IEEE one that numpy applies elementwise,
  so that a division by zero is visible as an infinity or a NaN of the model.
\<close>

datatype fl = Fin rat | PInf | NInf | NaN



text \<open>The sign of a value that is not NaN, and the infinity (or NaN) of a given sign.\<close>

fun fl_sign :: "fl \<Rightarrow> rat" where
  "fl_sign (Fin a) = sgn a"
| "fl_sign PInf = 1"
| "fl_sign NInf = - 1"
| "fl_sign NaN = 0"

definition inf_of_sign :: "rat \<Rightarrow> fl" where
  "inf_of_sign s = (if 0 < s then PInf else if s < 0 then NInf else NaN)"

fun fl_mul :: "fl \<Rightarrow> fl \<Rightarrow> fl" where
  "fl_mul NaN y = NaN"
| "fl_mul x NaN = NaN"
| "fl_mul (Fin a) (Fin b) = Fin (a * b)"
| "fl_mul x y = inf_of_sign (fl_sign x * fl_sign y)"

fun fl_add :: "fl \<Rightarrow> fl \<Rightarrow> fl" where
  "fl_add NaN y = NaN"
| "fl_add x NaN = NaN"
| "fl_add (Fin a) (Fin b) = Fin (a + b)"
| "fl_add PInf NInf = NaN"
| "fl_add NInf PInf = NaN"
| "fl_add (Fin a) y = y"
| "fl_add x y = x"

text \<open>
  Division: a finite nonzero number over zero is an infinity, zero over zero is NaN
  (the sign of a zero is not modelled: every zero is the positive one).
\<close>

fun fl_div :: "fl \<Rightarrow> fl \<Rightarrow> fl" where
  "fl_div NaN y = NaN"
| "fl_div x NaN = NaN"
| "fl_div (Fin a) (Fin b) = (if b = 0 then inf_of_sign (sgn a) else Fin (a / b))"
| "fl_div (Fin a) y = Fin 0"
| "fl_div x (Fin b) = inf_of_sign (fl_sign x * (if b < 0 then - 1 else 1))"
| "fl_div x y = NaN"

text \<open>Comparisons: every comparison with NaN is false.\<close>

fun fl_gt :: "fl \<Rightarrow> fl \<Rightarrow> bool" where
  "fl_gt NaN y = False"
| "fl_gt x NaN = False"
| "fl_gt (Fin a) (Fin b) = (b < a)"
| "fl_gt PInf y = (y \<noteq> PInf)"
| "fl_gt x NInf = (x \<noteq> NInf)"
| "fl_gt x y = False"

definition fl_ge :: "fl \<Rightarrow> fl \<Rightarrow> bool" where
  "fl_ge x y = (x \<noteq> NaN \<and> y \<noteq> NaN \<and> (x = y \<or> fl_gt x y))"

text \<open>\<open>Series.replace(0, nan)\<close> and \<open>Series.fillna(v)\<close>, elementwise.\<close>

definition replace0 :: "fl \<Rightarrow> fl" where
  "replace0 x = (if x = Fin 0 then NaN else x)"

definition fillna :: "fl \<Rightarrow> fl \<Rightarrow> fl" where
  "fillna v x = (if x = NaN then v else x)"

text \<open>A numeric cell read from a sheet: a finite number, or blank (read as NaN).\<close>

fun cell :: "rat option \<Rightarrow> fl" where
  "cell None = NaN"
| "cell (Some a) = Fin a"

text \<open>\<open>Series.sum()\<close> skips NaN; the sum of no value is 0.\<close>

fun sum_skipna :: "fl list \<Rightarrow> fl" where
  "sum_skipna [] = Fin 0"
| "sum_skipna (x # xs) = (if x = NaN then sum_skipna xs else fl_add x (sum_skipna xs))"

text \<open>\<open>Series.mean()\<close> skips NaN; the mean of no value is NaN.\<close>

definition mean_skipna :: "fl list \<Rightarrow> fl" where
  "mean_skipna xs =
     (let vs = filter (\<lambda>x. x \<noteq> NaN) xs
      in fl_div (sum_skipna vs) (Fin (of_nat (length vs))))"

text \<open>
  \<open>Series.quantile(q)\<close> with the default linear interpolation and \<open>Series.median()\<close>:
  NaN is dropped, the rest is sorted, and of no value the result is NaN. The position
  \<open>q * (n - 1)\<close> lies between two neighbours of the sorted column, and numpy's
  interpolation between them takes the upper formula from \<open>t \<ge> 0.5\<close> on. The source
  calls \<open>quantile\<close> with a constant in \<open>[0, 1]\<close> only (pandas raises outside).
\<close>

fun fl_key :: "fl \<Rightarrow> int \<times> rat" where
  "fl_key NInf = (- 1, 0)"
| "fl_key (Fin a) = (0, a)"
| "fl_key PInf = (1, 0)"
| "fl_key NaN = (2, 0)"

definition fl_sub :: "fl \<Rightarrow> fl \<Rightarrow> fl" where
  "fl_sub x y = fl_add x (fl_mul (Fin (- 1)) y)"

definition lerp :: "fl \<Rightarrow> fl \<Rightarrow> rat \<Rightarrow> fl" where
  "lerp a b t =
     (if 1 / 2 \<le> t then fl_sub b (fl_mul (fl_sub b a) (Fin (1 - t)))
      else fl_add a (fl_mul (fl_sub b a) (Fin t)))"

definition sorted_values :: "fl list \<Rightarrow> fl list" where
  "sorted_values col = sort_key fl_key (filter (\<lambda>x. x \<noteq> NaN) col)"

definition quantile :: "rat \<Rightarrow> fl list \<Rightarrow> fl" where
  "quantile q col =
     (let vs = sorted_values col; n = length vs
      in if n = 0 then NaN
         else let pos = q * of_nat (n - 1);
                  lo = nat \<lfloor>pos\<rfloor>;
                  hi = min (lo + 1) (n - 1)
              in lerp (vs ! lo) (vs ! hi) (pos - of_int \<lfloor>pos\<rfloor>))"

definition median :: "fl list \<Rightarrow> fl" where
  "median col =
     (let vs = sorted_values col; n = length vs
      in if n = 0 then NaN
         else if odd n then vs ! (n div 2)
         else fl_div (fl_add (vs ! (n div 2 - 1)) (vs ! (n div 2))) (Fin 2))"

section \<open>The three raw tables\<close>

text \<open>
  One record per row, one field per column that the pipeline reads. A text cell may be
  blank (\<open>None\<close>); so may a numeric one. \<open>m_month\<close> and \<open>s_month\<close> are the
  \<open>YYYY-MM\<close> label that lines 154 to 163 derive from the ship date; the parsing of dates
  is not modelled, and the label is blank where the date is.
\<close>

record material_row =
  m_code :: "string option"
  m_name :: "string option"
  m_region :: "string option"
  m_province :: "string option"
  m_product :: "string option"
  m_month :: "string option"
  m_qty :: "rat option"

record sales_row =
  s_code :: "string option"
  s_name :: "string option"
  s_region :: "string option"
  s_province :: "string option"
  s_product :: "string option"
  s_month :: "string option"
  s_qty :: "rat option"
  s_price :: "rat option"

record price_row =
  p_code :: "string option"
  p_price :: "rat option"
  p_category :: "string option"

section \<open>Metric deriver (\<open>load_data\<close>, lines 165 to 181)\<close>

text \<open>A material row with the columns that the join and the derivations add.\<close>

record material =
  row :: material_row
  unit_price :: fl
  category :: "string option"
  cost :: fl
  efficiency :: fl

record sales =
  srow :: sales_row
  amount :: fl

text \<open>
  Lines 166 to 167: the left join of the material table with the price list on the
  product code. A material row with no partner is kept once, price and category
  missing; a row with several partners is repeated, once per partner, in the price
  list's order. pandas joins a blank key with a blank key, as the equality on
  \<open>option\<close> does.
\<close>

definition merge_price :: "material_row list \<Rightarrow> price_row list \<Rightarrow> (material_row \<times> fl \<times> string option) list" where
  "merge_price md mp =
     concat (map (\<lambda>r. let ms = filter (\<lambda>p. p_code p = m_product r) mp
                       in if ms = [] then [(r, NaN, None)]
                          else map (\<lambda>p. (r, cell (p_price p), p_category p)) ms) md)"

text \<open>Line 170: the mean of the price column of the price list.\<close>

definition mean_price :: "price_row list \<Rightarrow> fl" where
  "mean_price mp = mean_skipna (map (\<lambda>p. cell (p_price p)) mp)"


text \<open>
  Lines 171 to 181 on one joined row: fill a missing price with the mean, multiply,
  and divide the quantity by the cost with zero costs replaced by NaN and the NaN
  results filled with 0. (Line 171 and 181 fill a column selection in place, which
  updates the frame in the pandas versions the program was written for.)
\<close>

definition derive_material :: "fl \<Rightarrow> material_row \<times> fl \<times> string option \<Rightarrow> material" where
  "derive_material mean j =
     (case j of (r, p, c) \<Rightarrow>
        let price = fillna mean p;
            qty = cell (m_qty r);
            cst = fl_mul qty price
        in \<lparr>row = r, unit_price = price, category = c, cost = cst,
            efficiency = fillna (Fin 0) (fl_div qty (replace0 cst))\<rparr>)"

definition material_data :: "material_row list \<Rightarrow> price_row list \<Rightarrow> material list" where
  "material_data md mp = map (derive_material (mean_price mp)) (merge_price md mp)"

text \<open>Line 177: the sales amount of a sales row.\<close>

definition derive_sales :: "sales_row \<Rightarrow> sales" where
  "derive_sales r = \<lparr>srow = r, amount = fl_mul (cell (s_qty r)) (cell (s_price r))\<rparr>"

definition sales_data :: "sales_row list \<Rightarrow> sales list" where
  "sales_data sd = map derive_sales sd"

section \<open>Aggregator (\<open>load_data\<close>, lines 183 to 203)\<close>

text \<open>
  \<open>groupby(keys)[col].sum().reset_index()\<close>: rows with a blank in a key column are
  dropped, there is one row per key that is left, in the sorted order of the keys, and it
  holds the sum of the group's values. \<open>nunique()\<close> counts the distinct values of the
  group that are not blank.
\<close>

definition key2 :: "'a option \<Rightarrow> 'b option \<Rightarrow> ('a \<times> 'b) option" where
  "key2 a b = (case (a, b) of (Some x, Some y) \<Rightarrow> Some (x, y) | _ \<Rightarrow> None)"

definition key3 :: "'a option \<Rightarrow> 'b option \<Rightarrow> 'c option \<Rightarrow> ('a \<times> 'b \<times> 'c) option" where
  "key3 a b c = (case (a, b, c) of (Some x, Some y, Some z) \<Rightarrow> Some (x, y, z) | _ \<Rightarrow> None)"

definition group_keys :: "('k::linorder option \<times> 'v) list \<Rightarrow> 'k list" where
  "group_keys kvs = sort (remdups (concat (map (\<lambda>(ko, v). case ko of None \<Rightarrow> [] | Some k \<Rightarrow> [k]) kvs)))"

definition group_values :: "'k \<Rightarrow> ('k option \<times> 'v) list \<Rightarrow> 'v list" where
  "group_values k kvs = map snd (filter (\<lambda>kv. fst kv = Some k) kvs)"

definition groupby_sum :: "('k::linorder option \<times> fl) list \<Rightarrow> ('k \<times> fl) list" where
  "groupby_sum kvs = map (\<lambda>k. (k, sum_skipna (group_values k kvs))) (group_keys kvs)"

definition groupby_nunique :: "('k::linorder option \<times> 'a option) list \<Rightarrow> ('k \<times> nat) list" where
  "groupby_nunique kvs =
     map (\<lambda>k. (k, length (remdups (filter (\<lambda>v. v \<noteq> None) (group_values k kvs))))) (group_keys kvs)"

type_synonym dist_key = "string \<times> string \<times> string"

text \<open>Lines 184 to 190: the cost per (code, name, month) and the sales per (code, name, month).\<close>

definition material_cost_by_distributor :: "material list \<Rightarrow> (dist_key \<times> fl) list" where
  "material_cost_by_distributor md =
     groupby_sum (map (\<lambda>r. (key3 (m_code (row r)) (m_name (row r)) (m_month (row r)), cost r)) md)"

definition sales_by_distributor :: "sales list \<Rightarrow> (dist_key \<times> fl) list" where
  "sales_by_distributor sd =
     groupby_sum (map (\<lambda>r. (key3 (s_code (srow r)) (s_name (srow r)) (s_month (srow r)), amount r)) sd)"

text \<open>
  Lines 193 to 194: the outer join on the three key columns. A left row is paired with
  each right row of its key, or kept alone with the right value missing; the right rows
  whose key the left table lacks follow with the left value missing; the result is
  sorted by the key.
\<close>

definition outer_rows :: "('k \<times> fl) list \<Rightarrow> ('k \<times> fl) list \<Rightarrow> ('k \<times> fl \<times> fl) list" where
  "outer_rows L R =
     concat (map (\<lambda>(k, a). let bs = map snd (filter (\<lambda>kb. fst kb = k) R)
                            in if bs = [] then [(k, a, NaN)] else map (\<lambda>b. (k, a, b)) bs) L)
     @ map (\<lambda>(k, b). (k, NaN, b)) (filter (\<lambda>kb. fst kb \<notin> fst ` set L) R)"

definition merge_outer :: "('k::linorder \<times> fl) list \<Rightarrow> ('k \<times> fl) list \<Rightarrow> ('k \<times> fl \<times> fl) list" where
  "merge_outer L R = sort_key fst (outer_rows L R)"

text \<open>A row of \<open>distributor_data\<close> as it is after line 203.\<close>

record agg_row =
  d_code :: string
  d_name :: string
  d_month :: string
  total_cost :: fl
  total_sales :: fl
  roi :: fl
  ratio :: fl

text \<open>The three key columns of a row.\<close>

definition dist_key_of :: "'a agg_row_scheme \<Rightarrow> dist_key" where
  "dist_key_of d = (d_code d, d_name d, d_month d)"

text \<open>
  Lines 194 to 203 on one joined row: \<open>fillna(0)\<close> on both totals, the ROI by
  \<open>np.where(cost > 0, sales / cost, 0)\<close>, the ratio with zero sales replaced by NaN
  and the NaN results filled with 0.
\<close>

definition derive_agg :: "dist_key \<times> fl \<times> fl \<Rightarrow> agg_row" where
  "derive_agg j =
     (case j of ((c, n, m), a, b) \<Rightarrow>
        let tc = fillna (Fin 0) a; ts = fillna (Fin 0) b
        in \<lparr>d_code = c, d_name = n, d_month = m, total_cost = tc, total_sales = ts,
            roi = (if fl_gt tc (Fin 0) then fl_div ts tc else Fin 0),
            ratio = fillna (Fin 0) (fl_mul (fl_div tc (replace0 ts)) (Fin 100))\<rparr>)"

definition aggregate :: "material list \<Rightarrow> sales list \<Rightarrow> agg_row list" where
  "aggregate md sd =
     map derive_agg (merge_outer (material_cost_by_distributor md) (sales_by_distributor sd))"

section \<open>Segmenter (\<open>value_segment\<close>, lines 206 to 216)\<close>

datatype tier = HighValue | Growth | Stable | LowEfficiency

text \<open>
  \<open>value_segment\<close> reads the sales column of the whole table \<open>distributor_data\<close>
  for its two thresholds, at every row.
\<close>

definition value_segment :: "'a agg_row_scheme list \<Rightarrow> 'b agg_row_scheme \<Rightarrow> tier" where
  "value_segment distributor_data r =
     (if fl_ge (roi r) (Fin 2) \<and>
         fl_gt (total_sales r) (quantile (3 / 4) (map total_sales distributor_data))
      then HighValue
      else if fl_ge (roi r) (Fin 1) \<and>
              fl_gt (total_sales r) (median (map total_sales distributor_data))
      then Growth
      else if fl_ge (roi r) (Fin 1) then Stable
      else LowEfficiency)"

text \<open>A row of the final \<open>distributor_data\<close>, with its segment and material diversity.\<close>

record distributor = agg_row +
  segment :: tier
  diversity :: fl

text \<open>
  Lines 219 to 225: the number of distinct products per (code, month), joined from the
  left onto the classified rows; a row with no partner gets 0.
\<close>

definition material_diversity :: "material list \<Rightarrow> ((string \<times> string) \<times> nat) list" where
  "material_diversity md =
     groupby_nunique (map (\<lambda>r. (key2 (m_code (row r)) (m_month (row r)), m_product (row r))) md)"

definition with_diversity :: "agg_row \<Rightarrow> tier \<Rightarrow> fl \<Rightarrow> distributor" where
  "with_diversity r t n =
     \<lparr>d_code = d_code r, d_name = d_name r, d_month = d_month r,
      total_cost = total_cost r, total_sales = total_sales r, roi = roi r, ratio = ratio r,
      segment = t, diversity = fillna (Fin 0) n\<rparr>"

definition merge_diversity :: "(agg_row \<times> tier) list \<Rightarrow> ((string \<times> string) \<times> nat) list \<Rightarrow> distributor list" where
  "merge_diversity rows dv =
     concat (map (\<lambda>(r, t). let ns = map snd (filter (\<lambda>kn. fst kn = (d_code r, d_month r)) dv)
                            in if ns = [] then [with_diversity r t NaN]
                               else map (\<lambda>n. with_diversity r t (Fin (of_nat n))) ns) rows)"

definition distributor_data :: "material list \<Rightarrow> sales list \<Rightarrow> distributor list" where
  "distributor_data md sd =
     (let agg = aggregate md sd
      in merge_diversity (map (\<lambda>r. (r, value_segment agg r)) agg) (material_diversity md))"

text \<open>Lines 152 to 227: the four tables that \<open>load_data\<close> returns, from the three it has read.\<close>

definition process_data ::
  "material_row list \<Rightarrow> sales_row list \<Rightarrow> price_row list \<Rightarrow>
   material list \<times> sales list \<times> price_row list \<times> distributor list" where
  "process_data m s p =
     (let md = material_data m p; sd = sales_data s
      in (md, sd, p, distributor_data md sd))"

section \<open>Filter layer (\<open>main\<close>, lines 277 to 303)\<close>

text \<open>The selections of the sidebar (lines 245 to 262).\<close>

record filter_spec =
  selected_regions :: "string list"
  selected_provinces :: "string list"
  selected_month :: string
  selected_categories :: "string list"
  selected_segments :: "tier list"

text \<open>\<open>Series.isin(values)\<close> on a text column: a blank cell is in no selection.\<close>

definition isin :: "'a option \<Rightarrow> 'a list \<Rightarrow> bool" where
  "isin c vs = (case c of None \<Rightarrow> False | Some v \<Rightarrow> v \<in> set vs)"

definition filtered_material :: "filter_spec \<Rightarrow> material list \<Rightarrow> material list" where
  "filtered_material f md =
     filter (\<lambda>r. isin (category r) (selected_categories f))
       (filter (\<lambda>r. isin (m_region (row r)) (selected_regions f) \<and>
                     isin (m_province (row r)) (selected_provinces f) \<and>
                     m_month (row r) = Some (selected_month f)) md)"

definition filtered_sales :: "filter_spec \<Rightarrow> sales list \<Rightarrow> sales list" where
  "filtered_sales f sd =
     filter (\<lambda>r. isin (s_region (srow r)) (selected_regions f) \<and>
                  isin (s_province (srow r)) (selected_provinces f) \<and>
                  s_month (srow r) = Some (selected_month f)) sd"

text \<open>
  Lines 294 to 303: the month, then the segments, then the codes of the filtered sales
  table (\<open>unique()\<close> keeps a blank code as a value, which no row of
  \<open>distributor_data\<close> has).
\<close>

definition valid_distributors :: "filter_spec \<Rightarrow> sales list \<Rightarrow> string option list" where
  "valid_distributors f sd = remdups (map (\<lambda>r. s_code (srow r)) (filtered_sales f sd))"

definition filtered_distributor :: "filter_spec \<Rightarrow> sales list \<Rightarrow> distributor list \<Rightarrow> distributor list" where
  "filtered_distributor f sd dd =
     filter (\<lambda>r. Some (d_code r) \<in> set (valid_distributors f sd))
       (filter (\<lambda>r. segment r \<in> set (selected_segments f))
          (filter (\<lambda>r. d_month r = selected_month f) dd))"

section \<open>Loader (\<open>load_from_github\<close> and \<open>load_data\<close>, lines 105 to 150)\<close>

text \<open>
  What the outside world answers to each of the six reads: the table, or the exception
  that the request or the parser raises.
\<close>

record 'e world =
  github_material :: "'e + material_row list"
  github_sales :: "'e + sales_row list"
  github_price :: "'e + price_row list"
  local_material :: "'e + material_row list"
  local_sales :: "'e + sales_row list"
  local_price :: "'e + price_row list"

text \<open>Lines 105 to 114: every exception is caught, and the result is then \<open>None\<close>.\<close>

definition load_from_github :: "'e + 't \<Rightarrow> 't option" where
  "load_from_github answer = (case answer of Inl e \<Rightarrow> None | Inr t \<Rightarrow> Some t)"

text \<open>Lines 142 to 150: the three local reads, in order; the first exception leaves the function.\<close>

definition load_local :: "'e world \<Rightarrow> 'e + material_row list \<times> sales_row list \<times> price_row list" where
  "load_local w =
     (case local_material w of Inl e \<Rightarrow> Inl e | Inr m \<Rightarrow>
      case local_sales w of Inl e \<Rightarrow> Inl e | Inr s \<Rightarrow>
      case local_price w of Inl e \<Rightarrow> Inl e | Inr p \<Rightarrow> Inr (m, s, p))"

text \<open>
  Lines 122 to 150: with \<open>use_github\<close> the three remote loads are all made; if one of them
  is \<open>None\<close> the exception of line 135 is caught at line 137 and \<open>use_github\<close> is reset,
  so that the local branch runs.
\<close>

definition load_tables :: "bool \<Rightarrow> 'e world \<Rightarrow> 'e + material_row list \<times> sales_row list \<times> price_row list" where
  "load_tables use_github w =
     (let remote =
        (if use_github
         then (case (load_from_github (github_material w), load_from_github (github_sales w),
                     load_from_github (github_price w)) of
                 (Some m, Some s, Some p) \<Rightarrow> Some (m, s, p)
               | _ \<Rightarrow> None)
         else None)
      in case remote of Some t \<Rightarrow> Inr t | None \<Rightarrow> load_local w)"

definition load_data ::
  "bool \<Rightarrow> 'e world \<Rightarrow> 'e + material list \<times> sales list \<times> price_row list \<times> distributor list" where
  "load_data use_github w =
     (case load_tables use_github w of
        Inl e \<Rightarrow> Inl e
      | Inr (m, s, p) \<Rightarrow> Inr (process_data m s p))"

section \<open>Notions of the specification\<close>

text \<open>
  The rows of the aggregated table for one (distributor code, month label) pair, and the
  total sales of the rows of one month: the specification speaks of both, the program of
  neither.
\<close>

definition pair_rows :: "'a agg_row_scheme list \<Rightarrow> string \<Rightarrow> string \<Rightarrow> 'a agg_row_scheme list" where
  "pair_rows dd c m = filter (\<lambda>d. d_code d = c \<and> d_month d = m) dd"

definition month_sales :: "'a agg_row_scheme list \<Rightarrow> string \<Rightarrow> fl list" where
  "month_sales dd m = map total_sales (filter (\<lambda>x. d_month x = m) dd)"

section \<open>Example tables\<close>

text \<open>Scenario A of the specification: ten boxes of product P, whose price is 5.\<close>

definition scenario_a_material :: material_row where
  "scenario_a_material =
     \<lparr>m_code = Some ''X'', m_name = Some ''Distributor X'', m_region = Some ''East'',
      m_province = Some ''Zhejiang'', m_product = Some ''P'', m_month = Some ''2025-01'',
      m_qty = Some 10\<rparr>"

definition scenario_a_price :: price_row where
  "scenario_a_price = \<lparr>p_code = Some ''P'', p_price = Some 5, p_category = Some ''Display''\<rparr>"

text \<open>
  Distributor W has material in 2025-03 and no sales, distributor V was sent no box,
  distributor Y has sales in 2025-02 and no material (scenarios B and E).
\<close>

definition zero_material :: "material_row list" where
  "zero_material =
     [\<lparr>m_code = Some ''W'', m_name = Some ''Distributor W'', m_region = Some ''East'',
       m_province = Some ''Zhejiang'', m_product = Some ''P'', m_month = Some ''2025-03'',
       m_qty = Some 4\<rparr>,
      \<lparr>m_code = Some ''V'', m_name = Some ''Distributor V'', m_region = Some ''East'',
       m_province = Some ''Zhejiang'', m_product = Some ''P'', m_month = Some ''2025-03'',
       m_qty = Some 0\<rparr>]"

definition zero_sales :: "sales_row list" where
  "zero_sales =
     [\<lparr>s_code = Some ''Y'', s_name = Some ''Distributor Y'', s_region = Some ''North'',
       s_province = Some ''Hebei'', s_product = Some ''S'', s_month = Some ''2025-02'',
       s_qty = Some 100, s_price = Some 10\<rparr>]"

definition zero_table :: "distributor list" where
  "zero_table = distributor_data (material_data zero_material [scenario_a_price]) (sales_data zero_sales)"


definition scenario_d_prices :: "price_row list" where
  "scenario_d_prices =
     [\<lparr>p_code = Some ''P'', p_price = Some 5, p_category = Some ''Display''\<rparr>,
      \<lparr>p_code = Some ''R'', p_price = Some (48 / 5), p_category = Some ''Gift''\<rparr>]"


text \<open>
  The same distributor code under two names: X has its material as "Distributor X" and
  its sales as "Distributor X Ltd".
\<close>

definition renamed_sales :: "sales_row list" where
  "renamed_sales =
     [\<lparr>s_code = Some ''X'', s_name = Some ''Distributor X Ltd'', s_region = Some ''East'',
       s_province = Some ''Zhejiang'', s_product = Some ''S'', s_month = Some ''2025-01'',
       s_qty = Some 5, s_price = Some 20\<rparr>]"

definition renamed_table :: "distributor list" where
  "renamed_table =
     distributor_data (material_data [scenario_a_material] [scenario_a_price]) (sales_data renamed_sales)"

text \<open>
  Six distributors with sales in January, of which Z alone has material (cost 100, sales
  250, ROI 2.5), and one large distributor of the north with sales in February.
\<close>

definition sale :: "string \<Rightarrow> string \<Rightarrow> string \<Rightarrow> rat \<Rightarrow> sales_row" where
  "sale c g m v = \<lparr>s_code = Some c, s_name = Some (''Distributor '' @ c), s_region = Some g,
     s_province = Some ''Zhejiang'', s_product = Some ''S'', s_month = Some m,
     s_qty = Some v, s_price = Some 1\<rparr>"

definition january_sales :: "sales_row list" where
  "january_sales =
     [sale ''A'' ''East'' ''2025-01'' 10, sale ''B'' ''East'' ''2025-01'' 20,
      sale ''C'' ''East'' ''2025-01'' 30, sale ''D'' ''East'' ''2025-01'' 40,
      sale ''Z'' ''East'' ''2025-01'' 250, sale ''E'' ''East'' ''2025-01'' 300]"

definition february_sales :: "sales_row list" where
  "february_sales = [sale ''F'' ''North'' ''2025-02'' 1000]"

definition z_material :: "material_row list" where
  "z_material =
     [\<lparr>m_code = Some ''Z'', m_name = Some ''Distributor Z'', m_region = Some ''East'',
       m_province = Some ''Zhejiang'', m_product = Some ''P'', m_month = Some ''2025-01'',
       m_qty = Some 20\<rparr>]"

definition january_table :: "distributor list" where
  "january_table = distributor_data (material_data z_material [scenario_a_price]) (sales_data january_sales)"

definition two_month_table :: "distributor list" where
  "two_month_table =
     distributor_data (material_data z_material [scenario_a_price])
       (sales_data (january_sales @ february_sales))"

definition single_table :: "distributor list" where
  "single_table =
     distributor_data (material_data z_material [scenario_a_price])
       (sales_data [sale ''Z'' ''East'' ''2025-01'' 250])"

definition z_row :: "tier \<Rightarrow> distributor" where
  "z_row t = \<lparr>d_code = ''Z'', d_name = ''Distributor Z'', d_month = ''2025-01'',
     total_cost = Fin 100, total_sales = Fin 250, roi = Fin (5 / 2), ratio = Fin 40,
     segment = t, diversity = Fin 1\<rparr>"

definition f_row :: distributor where
  "f_row = \<lparr>d_code = ''F'', d_name = ''Distributor F'', d_month = ''2025-02'',
     total_cost = Fin 0, total_sales = Fin 1000, roi = Fin 0, ratio = Fin 0,
     segment = LowEfficiency, diversity = Fin 0\<rparr>"

text \<open>Two selections of the sidebar.\<close>

definition january_filter :: filter_spec where
  "january_filter =
     \<lparr>selected_regions = [''East''], selected_provinces = [''Zhejiang''],
      selected_month = ''2025-01'', selected_categories = [''Display''],
      selected_segments = [HighValue, Growth]\<rparr>"

definition february_filter :: filter_spec where
  "february_filter =
     \<lparr>selected_regions = [''East''], selected_provinces = [''Zhejiang''],
      selected_month = ''2025-02'', selected_categories = [''Display''],
      selected_segments = [HighValue, Growth, Stable, LowEfficiency]\<rparr>"

text \<open>
  Three worlds: one whose remote material file is missing, one whose remote price list
  is missing and whose local sales file cannot be read, and one that serves remotely
  the tables that the first has locally.
\<close>

datatype fault = NotFound | Unreadable

definition offline_world :: "fault world" where
  "offline_world =
     \<lparr>github_material = Inl NotFound, github_sales = Inr zero_sales,
      github_price = Inr [scenario_a_price],
      local_material = Inr zero_material, local_sales = Inr january_sales,
      local_price = Inr scenario_d_prices\<rparr>"

definition broken_world :: "fault world" where
  "broken_world =
     \<lparr>github_material = Inr zero_material, github_sales = Inr zero_sales,
      github_price = Inl NotFound,
      local_material = Inr zero_material, local_sales = Inl Unreadable,
      local_price = Inr scenario_d_prices\<rparr>"


section \<open>Arithmetic on cells\<close>

lemma fl_div_NaN_right [simp]: "fl_div x NaN = NaN"
  by (cases x) simp_all

lemma fl_mul_NaN_right [simp]: "fl_mul x NaN = NaN"
  by (cases x) simp_all

lemma fl_add_NaN_right [simp]: "fl_add x NaN = NaN"
  by (cases x) simp_all

lemma cell_not_inf [simp]: "cell c \<noteq> PInf" "cell c \<noteq> NInf"
  by (cases c; simp)+









section \<open>Properties of the metric deriver\<close>















section \<open>Properties of the aggregator\<close>










lemma merge_diversity_mem:
  assumes "d \<in> set (merge_diversity rows dv)"
  shows "\<exists>r t n. (r, t) \<in> set rows \<and> d = with_diversity r t n"
  using assms by (auto simp: merge_diversity_def Let_def split: if_splits)

lemma distributor_data_mem:
  assumes "d \<in> set (distributor_data md sd)"
  shows "\<exists>r n. r \<in> set (aggregate md sd) \<and> d = with_diversity r (value_segment (aggregate md sd) r) n"
  using merge_diversity_mem[OF assms[unfolded distributor_data_def Let_def]] by auto



subsection \<open>Keys of the grouped and the joined tables\<close>

lemma distinct_group_keys: "distinct (group_keys kvs)"
  by (simp add: group_keys_def)

lemma set_group_keys: "set (group_keys kvs) = {k. Some k \<in> fst ` set kvs}"
  by (force simp: group_keys_def split: option.splits)

lemma keys_groupby_sum: "map fst (groupby_sum kvs) = group_keys kvs"
  by (simp add: groupby_sum_def comp_def)

lemma keys_groupby_nunique: "map fst (groupby_nunique kvs) = group_keys kvs"
  by (simp add: groupby_nunique_def comp_def)

lemma filter_key_length:
  "distinct (map fst xs) \<Longrightarrow> length (filter (\<lambda>kv. fst kv = k) xs) \<le> 1"
proof (induction xs)
  case Nil
  show ?case by simp
next
  case (Cons x xs)
  show ?case
  proof (cases "fst x = k")
    case True
    with Cons.prems have "k \<notin> fst ` set xs" by simp
    then have "filter (\<lambda>kv. fst kv = k) xs = []" by (auto simp: filter_empty_conv)
    with True show ?thesis by simp
  next
    case False
    with Cons show ?thesis by simp
  qed
qed

lemma filter_key_single:
  assumes "distinct (map fst xs)" and "filter (\<lambda>kv. fst kv = k) xs \<noteq> []"
  shows "\<exists>v. filter (\<lambda>kv. fst kv = k) xs = [(k, v)] \<and> (k, v) \<in> set xs"
proof -
  from filter_key_length[OF assms(1), of k] assms(2)
  obtain kv where e: "filter (\<lambda>kv. fst kv = k) xs = [kv]"
    by (cases "filter (\<lambda>kv. fst kv = k) xs") auto
  then have "kv \<in> set (filter (\<lambda>kv. fst kv = k) xs)" by simp
  then have "fst kv = k" "kv \<in> set xs" by auto
  with e show ?thesis by (cases kv) auto
qed

lemma map_concat_singletons:
  "(\<And>x. x \<in> set xs \<Longrightarrow> map f (h x) = [g x]) \<Longrightarrow> map f (concat (map h xs)) = map g xs"
  by (induction xs) (simp_all add: map_concat)

lemma merge_diversity_map:
  assumes "distinct (map fst dv)" and "\<And>r t n. f (with_diversity r t n) = g (r, t)"
  shows "map f (merge_diversity rows dv) = map g rows"
  unfolding merge_diversity_def
proof (rule map_concat_singletons)
  fix x :: "agg_row \<times> tier"
  obtain r t where x: "x = (r, t)" by (cases x)
  let ?ms = "filter (\<lambda>kn. fst kn = (d_code r, d_month r)) dv"
  show "map f (case x of (r, t) \<Rightarrow>
          let ns = map snd (filter (\<lambda>kn. fst kn = (d_code r, d_month r)) dv)
          in if ns = [] then [with_diversity r t NaN]
             else map (\<lambda>n. with_diversity r t (Fin (of_nat n))) ns) = [g x]"
  proof (cases "?ms = []")
    case True
    then show ?thesis by (simp add: x assms(2))
  next
    case False
    from filter_key_single[OF assms(1) False] obtain v
      where "?ms = [((d_code r, d_month r), v)]" by blast
    then show ?thesis by (simp add: x assms(2))
  qed
qed

lemma distinct_material_diversity: "distinct (map fst (material_diversity md))"
  by (simp add: material_diversity_def keys_groupby_nunique distinct_group_keys)

lemma total_sales_distributor_data:
  "map total_sales (distributor_data md sd) = map total_sales (aggregate md sd)"
  unfolding distributor_data_def Let_def
  by (subst merge_diversity_map[where g = "\<lambda>rt. total_sales (fst rt)"])
     (simp_all add: distinct_material_diversity with_diversity_def comp_def)

lemma value_segment_cong:
  assumes "map total_sales tab = map total_sales tab'" and "roi r = roi r'" and "total_sales r = total_sales r'"
  shows "value_segment tab r = value_segment tab' r'"
  using assms by (simp add: value_segment_def)

lemma segment_of_row:
  assumes "d \<in> set (distributor_data md sd)"
  shows "segment d = value_segment (distributor_data md sd) d"
proof -
  from distributor_data_mem[OF assms] obtain r n where r: "r \<in> set (aggregate md sd)"
    and d: "d = with_diversity r (value_segment (aggregate md sd) r) n" by blast
  have "segment d = value_segment (aggregate md sd) r" by (simp add: d with_diversity_def)
  also have "\<dots> = value_segment (distributor_data md sd) d"
    by (rule value_segment_cong) (simp_all add: total_sales_distributor_data d with_diversity_def)
  finally show ?thesis .
qed

lemma distinct_map_sort_key: "distinct (map f (sort_key f xs)) = distinct (map f xs)"
  by (induction xs) (simp_all add: distinct_insort_key)

lemma merge_outer_left_keys:
  fixes L R :: "('k \<times> fl) list"
  assumes "distinct (map fst R)"
  shows "map fst (concat (map (\<lambda>(k, a). let bs = map snd (filter (\<lambda>kb. fst kb = k) R)
                              in if bs = [] then [(k, a, NaN)] else map (\<lambda>b. (k, a, b)) bs) L)) = map fst L"
proof (rule map_concat_singletons)
  fix x :: "'k \<times> fl"
  obtain k a where x: "x = (k, a)" by (cases x)
  let ?ms = "filter (\<lambda>kb. fst kb = k) R"
  show "map fst (case x of (k, a) \<Rightarrow> let bs = map snd (filter (\<lambda>kb. fst kb = k) R)
                              in if bs = [] then [(k, a, NaN)] else map (\<lambda>b. (k, a, b)) bs) = [fst x]"
  proof (cases "?ms = []")
    case True
    then show ?thesis by (simp add: x)
  next
    case False
    from filter_key_single[OF assms False] obtain v where "?ms = [(k, v)]" by blast
    then show ?thesis by (simp add: x)
  qed
qed

lemma merge_outer_right_keys:
  "map fst (map (\<lambda>(k, b). (k, NaN, b)) (filter (\<lambda>kb. fst kb \<notin> S) R)) = filter (\<lambda>k. k \<notin> S) (map fst R)"
  by (induction R) auto

lemma keys_outer_rows:
  fixes L R :: "('k \<times> fl) list"
  assumes "distinct (map fst R)"
  shows "map fst (outer_rows L R) = map fst L @ filter (\<lambda>k. k \<notin> fst ` set L) (map fst R)"
  unfolding outer_rows_def map_append merge_outer_left_keys[OF assms] merge_outer_right_keys ..

lemma merge_outer_keys:
  assumes "distinct (map fst L)" and "distinct (map fst R)"
  shows "distinct (map fst (merge_outer L R))"
    and "set (map fst (merge_outer L R)) = fst ` set L \<union> fst ` set R"
proof -
  show "distinct (map fst (merge_outer L R))"
    unfolding merge_outer_def distinct_map_sort_key keys_outer_rows[OF assms(2)]
    using assms by auto
  have "set (map fst (merge_outer L R)) = set (map fst (outer_rows L R))"
    by (simp add: merge_outer_def)
  also have "\<dots> = fst ` set L \<union> fst ` set R"
    unfolding keys_outer_rows[OF assms(2)] by auto
  finally show "set (map fst (merge_outer L R)) = fst ` set L \<union> fst ` set R" .
qed

lemma merge_outer_sides:
  assumes "(k, a, b) \<in> set (merge_outer L R)"
  shows "((k, a) \<in> set L \<or> (a = NaN \<and> k \<notin> fst ` set L)) \<and>
         ((k, b) \<in> set R \<or> (b = NaN \<and> k \<notin> fst ` set R))"
  using assms
  by (auto simp: merge_outer_def outer_rows_def Let_def filter_empty_conv image_iff split: if_splits)

lemma filter_unique:
  "distinct (map f xs) \<Longrightarrow> k \<in> f ` set xs \<Longrightarrow> \<exists>x. filter (\<lambda>x. f x = k) xs = [x]"
proof (induction xs)
  case Nil
  then show ?case by simp
next
  case (Cons y ys)
  show ?case
  proof (cases "f y = k")
    case True
    with Cons.prems have "k \<notin> f ` set ys" by auto
    then have "filter (\<lambda>x. f x = k) ys = []" by (auto simp: filter_empty_conv)
    with True show ?thesis by simp
  next
    case False
    with Cons show ?thesis by auto
  qed
qed

lemma distinct_unique_value:
  "distinct (map fst xs) \<Longrightarrow> (k, a) \<in> set xs \<Longrightarrow> (k, b) \<in> set xs \<Longrightarrow> a = b"
  by (induction xs) (auto simp: image_iff)

lemma dist_key_derive_agg: "dist_key_of (derive_agg (k, a, b)) = k"
  by (cases k) (simp add: derive_agg_def dist_key_of_def Let_def)

lemma keys_aggregate:
  "map dist_key_of (aggregate md sd) =
   map fst (merge_outer (material_cost_by_distributor md) (sales_by_distributor sd))"
  by (auto simp: aggregate_def dist_key_derive_agg)

lemma keys_distributor_data:
  "map dist_key_of (distributor_data md sd) =
   map fst (merge_outer (material_cost_by_distributor md) (sales_by_distributor sd))"
proof -
  have "map dist_key_of (distributor_data md sd) = map dist_key_of (aggregate md sd)"
    unfolding distributor_data_def Let_def
    by (subst merge_diversity_map[where g = "\<lambda>rt. dist_key_of (fst rt)"])
       (simp_all add: distinct_material_diversity with_diversity_def comp_def dist_key_of_def)
  then show ?thesis by (simp add: keys_aggregate)
qed

lemma distinct_grouped:
  "distinct (map fst (material_cost_by_distributor md))"
  "distinct (map fst (sales_by_distributor sd))"
  by (simp_all add: material_cost_by_distributor_def sales_by_distributor_def
      keys_groupby_sum distinct_group_keys)

text \<open>
  Claim C1, as the specification has it, fails: the tables are grouped and joined on
  the code, the name and the month, so a distributor code that has one name in the
  material table and another in the sales table has two rows for its (code, month) pair.
\<close>

theorem duplicate_pair_counterexample:
  "(''X'', ''Distributor X'', ''2025-01'')
     \<in> fst ` set (material_cost_by_distributor (material_data [scenario_a_material] [scenario_a_price])) \<and>
   map dist_key_of (pair_rows renamed_table ''X'' ''2025-01'') =
     [(''X'', ''Distributor X'', ''2025-01''), (''X'', ''Distributor X Ltd'', ''2025-01'')]"
  by code_simp

text \<open>
  Claim C1, amended: for every (distributor code, distributor name, month label) triple
  of the grouped material-cost table or of the grouped sales table, the final table has
  exactly one row with these three keys; its total cost is 0 if the triple is not in the
  grouped material table, its total sales are 0 if the triple is not in the grouped
  sales table, and otherwise they are the grouped sums.
\<close>

theorem outer_join_complete:
  assumes "k \<in> fst ` set (material_cost_by_distributor md) \<union> fst ` set (sales_by_distributor sd)"
  shows "\<exists>d. filter (\<lambda>d. dist_key_of d = k) (distributor_data md sd) = [d] \<and>
     (k \<notin> fst ` set (material_cost_by_distributor md) \<longrightarrow> total_cost d = Fin 0) \<and>
     (k \<notin> fst ` set (sales_by_distributor sd) \<longrightarrow> total_sales d = Fin 0) \<and>
     (\<forall>c. (k, c) \<in> set (material_cost_by_distributor md) \<longrightarrow> total_cost d = fillna (Fin 0) c) \<and>
     (\<forall>v. (k, v) \<in> set (sales_by_distributor sd) \<longrightarrow> total_sales d = fillna (Fin 0) v)"
proof -
  let ?L = "material_cost_by_distributor md" and ?R = "sales_by_distributor sd"
  let ?dd = "distributor_data md sd"
  have dk: "distinct (map dist_key_of ?dd)"
    unfolding keys_distributor_data by (rule merge_outer_keys(1)) (rule distinct_grouped)+
  have "set (map dist_key_of ?dd) = fst ` set ?L \<union> fst ` set ?R"
    unfolding keys_distributor_data by (rule merge_outer_keys(2)) (rule distinct_grouped)+
  with assms have "k \<in> dist_key_of ` set ?dd" by simp
  from filter_unique[OF dk this] obtain d where f: "filter (\<lambda>d. dist_key_of d = k) ?dd = [d]" ..
  then have "d \<in> set (filter (\<lambda>d. dist_key_of d = k) ?dd)" by simp
  then have d: "d \<in> set ?dd" and kd: "dist_key_of d = k" by simp_all
  from distributor_data_mem[OF d] obtain r n where r: "r \<in> set (aggregate md sd)"
    and dr: "d = with_diversity r (value_segment (aggregate md sd) r) n" by blast
  from r obtain j where j: "j \<in> set (merge_outer ?L ?R)" and rj: "r = derive_agg j"
    by (auto simp: aggregate_def)
  obtain k' a b where jj: "j = (k', a, b)" by (cases j)
  have "dist_key_of d = dist_key_of r" by (simp add: dr with_diversity_def dist_key_of_def)
  with kd rj jj have k': "k' = k" by (simp add: dist_key_derive_agg)
  have tc: "total_cost d = fillna (Fin 0) a" and ts: "total_sales d = fillna (Fin 0) b"
    by (cases k; simp add: dr rj jj k' with_diversity_def derive_agg_def Let_def)+
  from merge_outer_sides[OF j[unfolded jj k']]
  have sa: "(k, a) \<in> set ?L \<or> (a = NaN \<and> k \<notin> fst ` set ?L)"
    and sb: "(k, b) \<in> set ?R \<or> (b = NaN \<and> k \<notin> fst ` set ?R)" by simp_all
  have c1: "k \<notin> fst ` set ?L \<longrightarrow> total_cost d = Fin 0"
    using sa tc by (auto simp: fillna_def image_iff)
  have c2: "k \<notin> fst ` set ?R \<longrightarrow> total_sales d = Fin 0"
    using sb ts by (auto simp: fillna_def image_iff)
  have c3: "\<forall>c. (k, c) \<in> set ?L \<longrightarrow> total_cost d = fillna (Fin 0) c"
    using sa tc distinct_unique_value[OF distinct_grouped(1), of k _ md] by (auto simp: image_iff)
  have c4: "\<forall>v. (k, v) \<in> set ?R \<longrightarrow> total_sales d = fillna (Fin 0) v"
    using sb ts distinct_unique_value[OF distinct_grouped(2), of k _ sd] by (auto simp: image_iff)
  from f c1 c2 c3 c4 show ?thesis by blast
qed

theorem outer_join_complete_witness:
  "(''Y'', ''Distributor Y'', ''2025-02'')
     \<in> fst ` set (material_cost_by_distributor (material_data zero_material [scenario_a_price])) \<union>
       fst ` set (sales_by_distributor (sales_data zero_sales)) \<and>
   (''Y'', ''Distributor Y'', ''2025-02'')
     \<notin> fst ` set (material_cost_by_distributor (material_data zero_material [scenario_a_price])) \<and>
   (\<exists>d. filter (\<lambda>d. dist_key_of d = (''Y'', ''Distributor Y'', ''2025-02'')) zero_table = [d] \<and>
        total_cost d = Fin 0)"
proof -
  let ?k = "(''Y'', ''Distributor Y'', ''2025-02'')"
  let ?md = "material_data zero_material [scenario_a_price]" and ?sd = "sales_data zero_sales"
  have r: "?k \<in> fst ` set (sales_by_distributor ?sd)" by code_simp
  have l: "?k \<notin> fst ` set (material_cost_by_distributor ?md)" by code_simp
  from r have u: "?k \<in> fst ` set (material_cost_by_distributor ?md) \<union> fst ` set (sales_by_distributor ?sd)"
    by simp
  from outer_join_complete [OF u] l
  have "\<exists>d. filter (\<lambda>d. dist_key_of d = ?k) (distributor_data ?md ?sd) = [d] \<and> total_cost d = Fin 0"
    by blast
  with u l show ?thesis unfolding zero_table_def by blast
qed

section \<open>Properties of the segmenter\<close>

text \<open>
  Claim C3: every row of the aggregated table has the segment that the first matching
  rule gives: high-value if the ROI is at least 2 and the total sales exceed the 75th
  percentile of the total sales of the table, else growth if the ROI is at least 1 and
  the total sales exceed the median, else stable if the ROI is at least 1, else
  low-efficiency.
\<close>

theorem segment_first_match:
  "\<forall>d \<in> set (distributor_data md sd).
     segment d =
       (if fl_ge (roi d) (Fin 2) \<and>
           fl_gt (total_sales d) (quantile (3 / 4) (map total_sales (distributor_data md sd)))
        then HighValue
        else if fl_ge (roi d) (Fin 1) \<and>
                fl_gt (total_sales d) (median (map total_sales (distributor_data md sd)))
        then Growth
        else if fl_ge (roi d) (Fin 1) then Stable
        else LowEfficiency)"
  using segment_of_row[of _ md sd] by (simp add: value_segment_def)

theorem segment_first_match_witness:
  "z_row Growth \<in> set two_month_table \<and>
   segment (z_row Growth) =
     (if fl_ge (roi (z_row Growth)) (Fin 2) \<and>
         fl_gt (total_sales (z_row Growth)) (quantile (3 / 4) (map total_sales two_month_table))
      then HighValue
      else if fl_ge (roi (z_row Growth)) (Fin 1) \<and>
              fl_gt (total_sales (z_row Growth)) (median (map total_sales two_month_table))
      then Growth
      else if fl_ge (roi (z_row Growth)) (Fin 1) then Stable
      else LowEfficiency)"
proof -
  have mem: "z_row Growth \<in> set two_month_table" by code_simp
  from segment_first_match [of "material_data z_material [scenario_a_price]"
      "sales_data (january_sales @ february_sales)"] mem
  show ?thesis unfolding two_month_table_def by blast
qed

text \<open>
  Claim C7, as the specification has it, fails. In the table of two months, Z has the
  ROI 2.5 and its sales are the 80th percentile of January (and exceed the 75th
  percentile of January), but the thresholds are those of the whole table, where the
  sales of February lift the 75th percentile above Z: Z is a growth customer. In the
  table of Z alone, the sales of Z are the 80th percentile and the 75th percentile at
  once, the comparison is strict, and Z is a stable customer.
\<close>

theorem month_percentile_counterexample:
  "z_row Growth \<in> set two_month_table \<and>
   roi (z_row Growth) = Fin (5 / 2) \<and>
   total_sales (z_row Growth) =
     quantile (4 / 5) (month_sales two_month_table (d_month (z_row Growth))) \<and>
   fl_gt (total_sales (z_row Growth))
     (quantile (3 / 4) (month_sales two_month_table (d_month (z_row Growth)))) \<and>
   segment (z_row Growth) \<noteq> HighValue \<and>
   single_table = [z_row Stable] \<and>
   total_sales (z_row Stable) = quantile (4 / 5) (map total_sales single_table) \<and>
   segment (z_row Stable) \<noteq> HighValue"
  by code_simp

text \<open>
  Claim C7, amended: a row with the ROI 2.5 whose total sales are the 80th percentile
  of the total sales of the whole aggregated table (all months), where this 80th
  percentile is strictly greater than the 75th percentile of the whole table, is a
  high-value customer.
\<close>

theorem high_value_at_percentile80:
  assumes "d \<in> set (distributor_data md sd)"
    and "roi d = Fin (5 / 2)"
    and "total_sales d = quantile (4 / 5) (map total_sales (distributor_data md sd))"
    and "fl_gt (quantile (4 / 5) (map total_sales (distributor_data md sd)))
               (quantile (3 / 4) (map total_sales (distributor_data md sd)))"
  shows "segment d = HighValue"
  using segment_of_row[OF assms(1)] assms(2-)
  by (simp add: value_segment_def fl_ge_def)

theorem high_value_at_percentile80_witness:
  "z_row HighValue \<in> set january_table \<and>
   roi (z_row HighValue) = Fin (5 / 2) \<and>
   total_sales (z_row HighValue) = quantile (4 / 5) (map total_sales january_table) \<and>
   fl_gt (quantile (4 / 5) (map total_sales january_table))
         (quantile (3 / 4) (map total_sales january_table)) \<and>
   segment (z_row HighValue) = HighValue"
proof -
  have mem: "z_row HighValue \<in> set january_table" by code_simp
  have r: "roi (z_row HighValue) = Fin (5 / 2)" by (simp add: z_row_def)
  have q: "total_sales (z_row HighValue) = quantile (4 / 5) (map total_sales january_table)"
    by code_simp
  have g: "fl_gt (quantile (4 / 5) (map total_sales january_table))
         (quantile (3 / 4) (map total_sales january_table))" by code_simp
  from high_value_at_percentile80 [OF mem [unfolded january_table_def] r
      q [unfolded january_table_def] g [unfolded january_table_def]]
  have "segment (z_row HighValue) = HighValue" .
  with mem r q g show ?thesis by blast
qed

section \<open>Properties of the filter layer\<close>

text \<open>
  Claim C4: whatever the filter specification, a row that survives the filtering is a
  row of the unfiltered table, and its segment is the one that the thresholds of the
  whole unfiltered table give.
\<close>

theorem segment_stable_under_filtering:
  assumes "d \<in> set (filtered_distributor f sd (distributor_data md sd))"
  shows "d \<in> set (distributor_data md sd) \<and> segment d = value_segment (distributor_data md sd) d"
proof -
  from assms have "d \<in> set (distributor_data md sd)"
    by (simp add: filtered_distributor_def)
  then show ?thesis by (simp add: segment_of_row)
qed

theorem segment_stable_under_filtering_witness:
  "z_row Growth \<in> set (filtered_distributor january_filter
       (sales_data (january_sales @ february_sales)) two_month_table) \<and>
   z_row Growth \<in> set two_month_table \<and>
   segment (z_row Growth) = value_segment two_month_table (z_row Growth)"
proof -
  have mem: "z_row Growth \<in> set (filtered_distributor january_filter
       (sales_data (january_sales @ february_sales)) two_month_table)"
    by code_simp
  from segment_stable_under_filtering [OF mem [unfolded two_month_table_def]] mem
  show ?thesis unfolding two_month_table_def by blast
qed

text \<open>
  Claim C8: whatever the filter specification, every row of the filtered distributor
  view has the selected month, a selected segment and a distributor code of the
  filtered sales table; and a row whose code is not in the filtered sales table is not
  in the view.
\<close>

theorem filtered_distributor_consistent:
  "(\<forall>d \<in> set (filtered_distributor f sd dd).
      d_month d = selected_month f \<and> segment d \<in> set (selected_segments f) \<and>
      Some (d_code d) \<in> (\<lambda>r. s_code (srow r)) ` set (filtered_sales f sd)) \<and>
   (\<forall>d \<in> set dd. Some (d_code d) \<notin> (\<lambda>r. s_code (srow r)) ` set (filtered_sales f sd) \<longrightarrow>
      d \<notin> set (filtered_distributor f sd dd))"
  by (auto simp: filtered_distributor_def valid_distributors_def)

theorem filtered_distributor_consistent_witness:
  "z_row Growth \<in> set (filtered_distributor january_filter
       (sales_data (january_sales @ february_sales)) two_month_table) \<and>
   d_month (z_row Growth) = selected_month january_filter \<and>
   segment (z_row Growth) \<in> set (selected_segments january_filter) \<and>
   f_row \<in> set two_month_table \<and>
   d_month f_row = selected_month february_filter \<and>
   segment f_row \<in> set (selected_segments february_filter) \<and>
   f_row \<notin> set (filtered_distributor february_filter
       (sales_data (january_sales @ february_sales)) two_month_table)"
proof -
  let ?sd = "sales_data (january_sales @ february_sales)"
  have m1: "z_row Growth \<in> set (filtered_distributor january_filter ?sd two_month_table)"
    by code_simp
  have m2: "f_row \<in> set two_month_table" by code_simp
  have ex: "Some (d_code f_row) \<notin> (\<lambda>r. s_code (srow r)) ` set (filtered_sales february_filter ?sd)"
    by code_simp
  have sel: "d_month f_row = selected_month february_filter"
    "segment f_row \<in> set (selected_segments february_filter)"
    by (simp_all add: f_row_def february_filter_def)
  from filtered_distributor_consistent [of january_filter ?sd two_month_table] m1
  have a: "d_month (z_row Growth) = selected_month january_filter \<and>
           segment (z_row Growth) \<in> set (selected_segments january_filter)" by blast
  from filtered_distributor_consistent [of february_filter ?sd two_month_table] m2 ex
  have b: "f_row \<notin> set (filtered_distributor february_filter ?sd two_month_table)" by blast
  from m1 a m2 sel b show ?thesis by blast
qed

section \<open>Properties of the loader\<close>

text \<open>
  Claim C6: with the remote source configured, if one of the three remote loads fails
  then all three tables are the local ones, and if a local read fails too, its exception
  is the result and there are no derived tables; the three tables of a successful load
  are all remote or all local.
\<close>

theorem loader_fallback:
  "(isl (github_material w) \<or> isl (github_sales w) \<or> isl (github_price w) \<longrightarrow>
      (\<forall>m s p. local_material w = Inr m \<and> local_sales w = Inr s \<and> local_price w = Inr p \<longrightarrow>
         load_data True w = Inr (process_data m s p)) \<and>
      (isl (local_material w) \<or> isl (local_sales w) \<or> isl (local_price w) \<longrightarrow>
         (\<exists>e. load_local w = Inl e \<and> load_data True w = Inl e))) \<and>
   (\<forall>m s p. load_tables use_github w = Inr (m, s, p) \<longrightarrow>
      (github_material w = Inr m \<and> github_sales w = Inr s \<and> github_price w = Inr p) \<or>
      (local_material w = Inr m \<and> local_sales w = Inr s \<and> local_price w = Inr p))"
proof (intro conjI impI allI)
  fix m s p
  assume f: "isl (github_material w) \<or> isl (github_sales w) \<or> isl (github_price w)"
    and l: "local_material w = Inr m \<and> local_sales w = Inr s \<and> local_price w = Inr p"
  from f have "load_tables True w = load_local w"
    by (auto simp: load_tables_def load_from_github_def isl_def split: sum.splits option.splits)
  with l show "load_data True w = Inr (process_data m s p)"
    by (simp add: load_data_def load_local_def)
next
  assume f: "isl (github_material w) \<or> isl (github_sales w) \<or> isl (github_price w)"
    and l: "isl (local_material w) \<or> isl (local_sales w) \<or> isl (local_price w)"
  from f have t: "load_tables True w = load_local w"
    by (auto simp: load_tables_def load_from_github_def isl_def split: sum.splits option.splits)
  from l have "\<exists>e. load_local w = Inl e"
    by (cases "local_material w"; cases "local_sales w"; cases "local_price w")
       (simp_all add: load_local_def)
  then obtain e where "load_local w = Inl e" ..
  then show "\<exists>e. load_local w = Inl e \<and> load_data True w = Inl e"
    by (simp add: load_data_def t)
next
  fix m s p
  assume "load_tables use_github w = Inr (m, s, p)"
  then show "(github_material w = Inr m \<and> github_sales w = Inr s \<and> github_price w = Inr p) \<or>
      (local_material w = Inr m \<and> local_sales w = Inr s \<and> local_price w = Inr p)"
    by (auto simp: load_tables_def load_from_github_def load_local_def Let_def
        split: sum.splits option.splits if_splits)
qed

theorem loader_fallback_witness:
  "isl (github_material offline_world) \<and>
   load_data True offline_world = Inr (process_data zero_material january_sales scenario_d_prices) \<and>
   isl (github_price broken_world) \<and> isl (local_sales broken_world) \<and>
   load_data True broken_world = Inl Unreadable"
proof -
  have f1: "isl (github_material offline_world)" by (simp add: offline_world_def)
  have l1: "local_material offline_world = Inr zero_material \<and>
            local_sales offline_world = Inr january_sales \<and>
            local_price offline_world = Inr scenario_d_prices" by (simp add: offline_world_def)
  have f2: "isl (github_price broken_world)" and l2: "isl (local_sales broken_world)"
    by (simp_all add: broken_world_def)
  have e: "load_local broken_world = Inl Unreadable"
    by (simp add: load_local_def broken_world_def)
  from loader_fallback [of offline_world True] f1 l1
  have a: "load_data True offline_world = Inr (process_data zero_material january_sales scenario_d_prices)"
    by blast
  from loader_fallback [of broken_world True] f2 l2 e
  have b: "load_data True broken_world = Inl Unreadable" by auto
  from f1 a f2 l2 b show ?thesis by blast
qed



end
